theory Spec2Isabelle
  imports Complex_Main
begin

section \<open>EventBlock: the data the component works on\<close>

text \<open>
  The component of \<^verbatim>\<open>src/components/Timeline/EventBlock.tsx\<close> receives an event that the
  parent timeline has already packed, a few layout scalars, a theme, two optional callbacks
  and three shared reactive values. JavaScript numbers are modelled as \<^typ>\<open>real\<close>:
  the arithmetic of the component is read exactly, without IEEE rounding and without NaN.

  Objects are passed by reference in JavaScript, so the event lives in a store and the
  props hold its address. A value of an untyped property is a \<open>js_val\<close>; a nested object
  is a reference into the store of nested objects, and a spread copies the reference, not
  the object.
\<close>

type_synonym addr = nat

datatype js_val = JNum real | JStr string | JBool bool | JRef addr

text \<open>
  \<open>PackedEvent\<close> is declared outside this file. The record has the properties the
  component reads (\<open>startHour\<close>, \<open>duration\<close>, \<open>left\<close>, \<open>width\<close>, \<open>title\<close>, \<open>color\<close>,
  \<open>containerStyle\<close>), the three properties the press handlers set (\<open>top\<close>, \<open>height\<close>,
  \<open>leftByIndex\<close>; \<open>None\<close> is an absent property) and, in \<open>extra\<close>, every other property
  by name. \<open>containerStyle\<close> is a style object: the event holds the reference to it.
\<close>

record packed_event =
  startHour :: real
  duration :: real
  left :: real
  width :: real
  title :: "string option"
  color :: "string option"
  containerStyle :: "addr option"
  top_ev :: "real option"
  height_ev :: "real option"
  leftByIndex :: "real option"
  extra :: "string \<rightharpoonup> js_val"

text \<open>\<open>ThemeProperties\<close>, also declared elsewhere: the properties this file reads.\<close>

record theme_properties =
  minimumEventHeight :: "real option"
  allowFontScaling :: "bool option"
  eventTitle :: "(string \<rightharpoonup> js_val) option"

text \<open>
  The world outside the component: the store of event objects with its allocation
  pointer (the objects below \<open>fresh\<close> are live), the store of the nested objects that
  events refer to, the cells of the three shared values (\<open>SharedValue<T>.value\<close>) and the
  state \<open>user\<close> that belongs to the code behind the callbacks.
\<close>

record 'u world =
  objects :: "addr \<Rightarrow> packed_event"
  fresh :: addr
  nested :: "addr \<Rightarrow> (string \<rightharpoonup> js_val)"
  timeIntervalHeight :: real
  heightByTimeInterval :: real
  isPinchActive :: bool
  user :: 'u

text \<open>
  A callback is code of the caller: given the reference to its argument it runs in the
  world and either returns or throws. \<open>renderEventContent\<close> is code of the caller too: it
  is given the reference to the event itself (and the shared value
  \<open>timeIntervalHeight\<close>, a cell of the world) and returns the content it renders.
\<close>

datatype js_error = Thrown string

type_synonym 'u callback = "addr \<Rightarrow> 'u world \<Rightarrow> js_error + 'u world"

record ('u, 'c) eventBlockProps =
  event :: addr
  dayIndex :: real
  columnWidth :: real
  onPressEvent :: "'u callback option"
  onLongPressEvent :: "'u callback option"
  renderEventContent :: "(addr \<Rightarrow> 'u world \<Rightarrow> js_error + 'c \<times> 'u world) option"
  selectedEventId :: "string option"
  theme :: theme_properties
  eventAnimatedDuration :: "real option"

definition EVENT_DEFAULT_COLOR :: string where
  "EVENT_DEFAULT_COLOR = ''#FFFFFF''"

section \<open>The press handlers\<close>

text \<open>An object literal allocates a new object and evaluates to its reference.\<close>

definition new_object :: "packed_event \<Rightarrow> 'u world \<Rightarrow> addr \<times> 'u world" where
  "new_object obj w =
     (fresh w, w\<lparr>objects := (objects w)(fresh w := obj), fresh := Suc (fresh w)\<rparr>)"

text \<open>
  \<open>_onLongPress\<close> and \<open>_onPress\<close> (an Isabelle name cannot start with an underscore).
  The spread \<open>{...event, top: \<dots>, height: \<dots>, leftByIndex: \<dots>}\<close> copies every property of
  the event and then sets the three listed ones; the copy is shallow, so the new object
  holds the same references (\<open>containerStyle\<close>, the references in \<open>extra\<close>) as the event.
  \<open>f?.(x)\<close> calls \<open>f\<close> unless it is undefined.
\<close>

definition private_onLongPress :: "('u, 'c) eventBlockProps \<Rightarrow> 'u world \<Rightarrow> js_error + 'u world" where
  "private_onLongPress p w =
     (let ev = objects w (event p);
          eventParams = ev\<lparr>
            top_ev := Some (startHour ev * heightByTimeInterval w),
            height_ev := Some (duration ev * heightByTimeInterval w),
            leftByIndex := Some (columnWidth p * dayIndex p)\<rparr>;
          (a, w') = new_object eventParams w
      in case onLongPressEvent p of
           None \<Rightarrow> Inr w'
         | Some f \<Rightarrow> f a w')"

definition private_onPress :: "('u, 'c) eventBlockProps \<Rightarrow> 'u world \<Rightarrow> js_error + 'u world" where
  "private_onPress p w =
     (let ev = objects w (event p);
          eventParams = ev\<lparr>
            top_ev := Some (startHour ev * heightByTimeInterval w),
            height_ev := Some (duration ev * heightByTimeInterval w),
            leftByIndex := Some (columnWidth p * dayIndex p)\<rparr>;
          (a, w') = new_object eventParams w
      in case onPressEvent p of
           None \<Rightarrow> Inr w'
         | Some f \<Rightarrow> f a w')"

section \<open>The animated style\<close>

text \<open>
  A style property is either a plain number, applied at once, or the transition that
  \<open>withTiming(value, {duration})\<close> builds; its duration is the optional prop
  \<open>eventAnimatedDuration\<close> as it is passed.
\<close>

datatype style_value = Plain real | WithTiming real "real option"

fun target :: "style_value \<Rightarrow> real" where
  "target (Plain v) = v"
| "target (WithTiming v d) = v"

text \<open>
  The object the worklet returns. The four corner radii are absent (\<open>None\<close>) from the
  object of the pinch branch.
\<close>

record event_style =
  top_st :: style_value
  height_st :: style_value
  left_st :: style_value
  width_st :: style_value
  borderTopLeftRadius :: "style_value option"
  borderTopRightRadius :: "style_value option"
  borderBottomLeftRadius :: "style_value option"
  borderBottomRightRadius :: "style_value option"

text \<open>
  The worklet of \<open>useAnimatedStyle\<close>, statement by statement. A number is truthy when it is
  not zero, an optional number when it is present and not zero.
\<close>

definition eventStyle :: "('u, 'c) eventBlockProps \<Rightarrow> 'u world \<Rightarrow> event_style" where
  "eventStyle p w =
     (let ev = objects w (event p);
          eventHoursPreviusDays = max (startHour ev * (- 1)) 0;
          eventHoursNextDays = max (startHour ev + duration ev - 24) 0;
          eventDurationValue = duration ev - eventHoursPreviusDays - eventHoursNextDays;
          eventStartHour = startHour ev + eventHoursPreviusDays;
          eventStartHourValue = eventStartHour * heightByTimeInterval w;
          eventHeight = eventDurationValue * heightByTimeInterval w;
          eventStartHourValue = eventStartHourValue + 1;
          eventHeight = eventHeight - 2;
          eventHeight =
            (case minimumEventHeight (theme p) of
               None \<Rightarrow> eventHeight
             | Some m \<Rightarrow> if m \<noteq> 0 then max m eventHeight else eventHeight)
      in if isPinchActive w then
           \<lparr>top_st = Plain eventStartHourValue,
            height_st = Plain eventHeight,
            left_st = Plain (left ev + columnWidth p * dayIndex p),
            width_st = Plain (width ev),
            borderTopLeftRadius = None,
            borderTopRightRadius = None,
            borderBottomLeftRadius = None,
            borderBottomRightRadius = None\<rparr>
         else
           (let hasPreviusDay = eventHoursPreviusDays > 0;
                hasNextDay = eventHoursNextDays > 0
            in \<lparr>top_st = WithTiming eventStartHourValue (eventAnimatedDuration p),
                height_st = WithTiming eventHeight (eventAnimatedDuration p),
                left_st = WithTiming (left ev + columnWidth p * dayIndex p) (eventAnimatedDuration p),
                width_st = WithTiming (width ev) (eventAnimatedDuration p),
                borderTopLeftRadius = Some (Plain (if hasPreviusDay then 0 else 4)),
                borderTopRightRadius = Some (Plain (if hasPreviusDay then 0 else 4)),
                borderBottomLeftRadius = Some (Plain (if hasNextDay then 0 else 4)),
                borderBottomRightRadius = Some (Plain (if hasNextDay then 0 else 4))\<rparr>))"

section \<open>The rendered element\<close>

text \<open>
  The children of the touchable: what \<open>renderEventContent\<close> returns when it is given, the
  default \<open>Text\<close> with the event's title otherwise.
\<close>

datatype 'c content = Custom 'c | TitleText "bool option" "(string \<rightharpoonup> js_val) option" "string option"

text \<open>
  The element the component returns: the entries of the view's style list after the static
  \<open>styles.eventBlock\<close>, in the order of the list (\<open>opacity\<close>, the reference
  \<open>event.containerStyle\<close>, the animated style), and the props of the \<open>TouchableOpacity\<close>
  with the two handlers.
\<close>

record ('u, 'c) rendered =
  opacity :: real
  viewContainerStyle :: "addr option"
  animatedStyle :: event_style
  disabled :: bool
  delayLongPress :: nat
  onPress :: "'u world \<Rightarrow> js_error + 'u world"
  onLongPress :: "'u world \<Rightarrow> js_error + 'u world"
  backgroundColor :: string
  activeOpacity :: real
  children :: "'c content"

text \<open>\<open>_renderEventContent\<close>, the default content.\<close>

definition private_renderEventContent :: "('u, 'c) eventBlockProps \<Rightarrow> 'u world \<Rightarrow> 'c content" where
  "private_renderEventContent p w =
     TitleText (allowFontScaling (theme p)) (eventTitle (theme p)) (title (objects w (event p)))"

text \<open>
  The body of the component after the hooks. A string is truthy when it is present and not
  empty. The props of the two elements are evaluated before the children, so the call of
  \<open>renderEventContent\<close> is the last step, and the only one that runs code of the caller.
\<close>

definition EventBlock ::
  "('u, 'c) eventBlockProps \<Rightarrow> 'u world \<Rightarrow> js_error + ('u, 'c) rendered \<times> 'u world" where
  "EventBlock p w =
     (let ev = objects w (event p);
          selected = (case selectedEventId p of None \<Rightarrow> False | Some s \<Rightarrow> s \<noteq> []);
          eventOpacity = (if selected then 0.5 else 1);
          element = (\<lambda>c.
            \<lparr>opacity = eventOpacity,
             viewContainerStyle = containerStyle ev,
             animatedStyle = eventStyle p w,
             disabled = selected,
             delayLongPress = 300,
             onPress = private_onPress p,
             onLongPress = private_onLongPress p,
             backgroundColor =
               (case color ev of
                  None \<Rightarrow> EVENT_DEFAULT_COLOR
                | Some c \<Rightarrow> if c \<noteq> [] then c else EVENT_DEFAULT_COLOR),
             activeOpacity = 0.6,
             children = c\<rparr>)
      in case renderEventContent p of
           Some r \<Rightarrow>
             (case r (event p) w of
                Inl e \<Rightarrow> Inl e
              | Inr (c, w') \<Rightarrow> Inr (element (Custom c), w'))
         | None \<Rightarrow> Inr (element (private_renderEventContent p w), w))"

text \<open>
  Two rules of the UI framework, which is not part of this repository. A
  \<open>TouchableOpacity\<close> calls its \<open>onPress\<close> (\<open>onLongPress\<close>) prop for a press (a long
  press) unless it is disabled, and then it ignores the touch. In a style list, a property
  has the value of the last entry that sets it: \<open>styles.eventBlock\<close> sets \<open>position\<close> and
  \<open>overflow\<close> and the animated style sets geometry and corner radii, so the opacity of
  the view is the one of \<open>containerStyle\<close> when that object, as it is when the view is
  drawn, has one, and the one of the opacity entry otherwise.
\<close>

definition press :: "('u, 'c) rendered \<Rightarrow> 'u world \<Rightarrow> js_error + 'u world" where
  "press el w = (if disabled el then Inr w else onPress el w)"

definition longPress :: "('u, 'c) rendered \<Rightarrow> 'u world \<Rightarrow> js_error + 'u world" where
  "longPress el w = (if disabled el then Inr w else onLongPress el w)"

definition rendered_opacity :: "('u, 'c) rendered \<Rightarrow> 'u world \<Rightarrow> js_val" where
  "rendered_opacity el w =
     (case viewContainerStyle el of
        None \<Rightarrow> JNum (opacity el)
      | Some r \<Rightarrow>
          (case nested w r ''opacity'' of
             None \<Rightarrow> JNum (opacity el)
           | Some v \<Rightarrow> v))"

section \<open>Observations and sample inputs\<close>

text \<open>
  \<open>is_transition d v\<close>: the style property \<open>v\<close> is a timing transition of duration \<open>d\<close>,
  not a value applied at once.
\<close>

fun is_transition :: "real option \<Rightarrow> style_value \<Rightarrow> bool" where
  "is_transition d (Plain v) = False"
| "is_transition d (WithTiming v d') = (d' = d)"

text \<open>
  \<open>inputs_unchanged w w'\<close>: every object that is live in \<open>w\<close>, every nested object and
  the three shared values are in \<open>w'\<close> what they are in \<open>w\<close>.
\<close>

definition inputs_unchanged :: "'u world \<Rightarrow> 'u world \<Rightarrow> bool" where
  "inputs_unchanged w w' \<longleftrightarrow>
     (\<forall>a < fresh w. objects w' a = objects w a)
     \<and> nested w' = nested w
     \<and> timeIntervalHeight w' = timeIntervalHeight w
     \<and> heightByTimeInterval w' = heightByTimeInterval w
     \<and> isPinchActive w' = isPinchActive w"

text \<open>
  A callback that writes own properties of its argument only: whenever it returns, every
  object other than the one it was given, every nested object and the shared values are
  as before.
\<close>

definition writes_own_properties :: "'u callback \<Rightarrow> bool" where
  "writes_own_properties f \<longleftrightarrow>
     (\<forall>a w w'. f a w = Inr w' \<longrightarrow>
        (\<forall>b. b \<noteq> a \<longrightarrow> objects w' b = objects w b)
        \<and> nested w' = nested w
        \<and> timeIntervalHeight w' = timeIntervalHeight w
        \<and> heightByTimeInterval w' = heightByTimeInterval w
        \<and> isPinchActive w' = isPinchActive w)"

text \<open>
  Three callbacks: one counts its calls, one overwrites the title of its argument
  (\<open>eventItem.title = 'seen'\<close>), one writes through its argument into the style object
  (\<open>eventItem.containerStyle.opacity = 0\<close>, a TypeError without a style object).
\<close>

definition count_call :: "nat callback" where
  "count_call a w = Inr (w\<lparr>user := Suc (user w)\<rparr>)"

definition retitle :: "nat callback" where
  "retitle a w = Inr (w\<lparr>objects := (objects w)(a := (objects w a)\<lparr>title := Some ''seen''\<rparr>)\<rparr>)"

definition restyle :: "nat callback" where
  "restyle a w =
     (case containerStyle (objects w a) of
        None \<Rightarrow> Inl (Thrown ''TypeError'')
      | Some r \<Rightarrow> Inr (w\<lparr>nested := (nested w)(r := (nested w r)(''opacity'' \<mapsto> JNum 0))\<rparr>))"

text \<open>
  An event from 22:00 of the previous day to 03:00, in the fourth day column of a
  timeline with sixty pixels to the hour.
\<close>

definition sample_event :: packed_event where
  "sample_event =
     \<lparr>startHour = - 2, duration = 5, left = 10, width = 80,
      title = Some ''Standup'', color = None, containerStyle = None,
      top_ev = None, height_ev = None, leftByIndex = None, extra = Map.empty\<rparr>"

definition sample_world :: "nat world" where
  "sample_world =
     \<lparr>objects = (\<lambda>a. sample_event), fresh = 1, nested = (\<lambda>r. Map.empty),
      timeIntervalHeight = 60,
      heightByTimeInterval = 60, isPinchActive = False, user = 0\<rparr>"

definition pinch_world :: "nat world" where
  "pinch_world = sample_world\<lparr>isPinchActive := True\<rparr>"

definition sample_theme :: theme_properties where
  "sample_theme = \<lparr>minimumEventHeight = None, allowFontScaling = None, eventTitle = None\<rparr>"

definition sample_props :: "(nat, unit) eventBlockProps" where
  "sample_props =
     \<lparr>event = 0, dayIndex = 3, columnWidth = 100, onPressEvent = None,
      onLongPressEvent = None, renderEventContent = None, selectedEventId = None,
      theme = sample_theme, eventAnimatedDuration = Some 250\<rparr>"

text \<open>
  The same block with both callbacks given, with one of them given, and with another
  event selected.
\<close>

definition pressable_props :: "(nat, unit) eventBlockProps" where
  "pressable_props =
     sample_props\<lparr>onPressEvent := Some count_call, onLongPressEvent := Some retitle\<rparr>"

definition press_only_props :: "(nat, unit) eventBlockProps" where
  "press_only_props = sample_props\<lparr>onPressEvent := Some count_call\<rparr>"

definition long_only_props :: "(nat, unit) eventBlockProps" where
  "long_only_props = sample_props\<lparr>onLongPressEvent := Some retitle\<rparr>"

definition restyle_props :: "(nat, unit) eventBlockProps" where
  "restyle_props = sample_props\<lparr>onPressEvent := Some restyle\<rparr>"

definition selected_props :: "(nat, unit) eventBlockProps" where
  "selected_props = pressable_props\<lparr>selectedEventId := Some ''other''\<rparr>"

text \<open>A one-minute event at 09:00, and a theme with a minimum height of twenty pixels.\<close>

definition short_world :: "nat world" where
  "short_world =
     sample_world\<lparr>objects := (objects sample_world)
       (0 := sample_event\<lparr>startHour := 9, duration := 1 / 60\<rparr>)\<rparr>"

definition minimum_props :: "(nat, unit) eventBlockProps" where
  "minimum_props = sample_props\<lparr>theme := sample_theme\<lparr>minimumEventHeight := Some 20\<rparr>\<rparr>"

text \<open>
  The event with a style object \<open>{opacity: 1}\<close> at address 7, the world after a press
  on it with the callback \<open>restyle\<close>, and the element of the block while another event is
  selected.
\<close>

definition styled_world :: "nat world" where
  "styled_world =
     sample_world\<lparr>objects := (objects sample_world)(0 := sample_event\<lparr>containerStyle := Some 7\<rparr>),
                  nested := (nested sample_world)(7 := [''opacity'' \<mapsto> JNum 1])\<rparr>"

definition restyled_world :: "nat world" where
  "restyled_world =
     styled_world\<lparr>objects := (objects styled_world)
                    (1 := sample_event\<lparr>containerStyle := Some 7, top_ev := Some (- 120),
                                        height_ev := Some 300, leftByIndex := Some 300\<rparr>),
                  fresh := 2,
                  nested := (nested styled_world)(7 := [''opacity'' \<mapsto> JNum 0])\<rparr>"

definition selected_element :: "(nat, unit) rendered" where
  "selected_element =
     \<lparr>opacity = 0.5, viewContainerStyle = Some 7,
      animatedStyle = eventStyle selected_props styled_world, disabled = True,
      delayLongPress = 300, onPress = private_onPress selected_props,
      onLongPress = private_onLongPress selected_props, backgroundColor = ''#FFFFFF'',
      activeOpacity = 0.6, children = TitleText None None (Some ''Standup'')\<rparr>"

lemmas sample_defs =
  sample_event_def sample_world_def pinch_world_def sample_theme_def sample_props_def
  pressable_props_def selected_props_def short_world_def minimum_props_def
  press_only_props_def long_only_props_def restyle_props_def styled_world_def

section \<open>Horizontal placement\<close>

text \<open>
  C3. For every event and every day index the rectangle is placed at
  \<open>left = event.left + columnWidth * dayIndex\<close> with \<open>width = event.width\<close>: as plain
  values in the pinch branch, as the targets of the transitions in the animated branch.
\<close>

theorem eventStyle_left_width:
  "left_st (eventStyle p w) =
     (if isPinchActive w
      then Plain (left (objects w (event p)) + columnWidth p * dayIndex p)
      else WithTiming (left (objects w (event p)) + columnWidth p * dayIndex p)
             (eventAnimatedDuration p))
   \<and> width_st (eventStyle p w) =
     (if isPinchActive w
      then Plain (width (objects w (event p)))
      else WithTiming (width (objects w (event p))) (eventAnimatedDuration p))
   \<and> target (left_st (eventStyle p w)) = left (objects w (event p)) + columnWidth p * dayIndex p
   \<and> target (width_st (eventStyle p w)) = width (objects w (event p))"
  by (simp add: eventStyle_def Let_def)

theorem eventStyle_left_width_witness:
  "left_st (eventStyle sample_props sample_world) = WithTiming 310 (Some 250)
   \<and> width_st (eventStyle sample_props pinch_world) = Plain 80"
  using eventStyle_left_width [of sample_props sample_world]
    eventStyle_left_width [of sample_props pinch_world]
  by (simp add: sample_defs)

section \<open>Corner rounding\<close>

text \<open>
  C4. When pinch is not active, the two top radii are 0 if \<open>event.startHour < 0\<close> (the
  event continues from the previous day) and 4 otherwise, and the two bottom radii are 0
  if \<open>event.startHour + event.duration > 24\<close> (the event continues into the next day) and
  4 otherwise.
\<close>

theorem eventStyle_corner_radii:
  assumes "\<not> isPinchActive w"
  shows "borderTopLeftRadius (eventStyle p w) =
           Some (Plain (if startHour (objects w (event p)) < 0 then 0 else 4))
       \<and> borderTopRightRadius (eventStyle p w) =
           Some (Plain (if startHour (objects w (event p)) < 0 then 0 else 4))
       \<and> borderBottomLeftRadius (eventStyle p w) =
           Some (Plain (if startHour (objects w (event p)) + duration (objects w (event p)) > 24
                        then 0 else 4))
       \<and> borderBottomRightRadius (eventStyle p w) =
           Some (Plain (if startHour (objects w (event p)) + duration (objects w (event p)) > 24
                        then 0 else 4))"
  using assms by (simp add: eventStyle_def Let_def)

theorem eventStyle_corner_radii_witness:
  "\<not> isPinchActive sample_world
   \<and> borderTopLeftRadius (eventStyle sample_props sample_world) = Some (Plain 0)
   \<and> borderTopRightRadius (eventStyle sample_props sample_world) = Some (Plain 0)
   \<and> borderBottomLeftRadius (eventStyle sample_props sample_world) = Some (Plain 4)
   \<and> borderBottomRightRadius (eventStyle sample_props sample_world) = Some (Plain 4)"
  using eventStyle_corner_radii [of sample_world sample_props]
  by (simp add: sample_defs)

section \<open>Vertical placement\<close>

text \<open>
  C7. The rendered vertical segment is the part of the event's interval
  \<open>[startHour, startHour + duration]\<close> that lies in the day \<open>[0, 24]\<close>: the top of the style
  is \<open>max(startHour, 0) * heightByTimeInterval + 1\<close>, and the height, before the clamp to
  the theme's minimum, is
  \<open>(duration - max(-startHour, 0) - max(startHour + duration - 24, 0)) * heightByTimeInterval - 2\<close>,
  where the factor in front is the length \<open>min(startHour + duration, 24) - max(startHour, 0)\<close>
  of the part in the day.
\<close>

theorem eventStyle_vertical_segment:
  "let ev = objects w (event p);
       h = heightByTimeInterval w;
       inDay = duration ev - max (- startHour ev) 0 - max (startHour ev + duration ev - 24) 0
   in target (top_st (eventStyle p w)) = max (startHour ev) 0 * h + 1
    \<and> target (height_st (eventStyle p w)) =
        (case minimumEventHeight (theme p) of
           None \<Rightarrow> inDay * h - 2
         | Some m \<Rightarrow> if m \<noteq> 0 then max m (inDay * h - 2) else inDay * h - 2)
    \<and> inDay = min (startHour ev + duration ev) 24 - max (startHour ev) 0"
  by (auto simp add: eventStyle_def Let_def max_def min_def split: option.splits)

theorem eventStyle_vertical_segment_witness:
  "target (top_st (eventStyle sample_props sample_world)) = 1
   \<and> target (height_st (eventStyle sample_props sample_world)) = 178"
  using eventStyle_vertical_segment [of sample_world sample_props]
  by (simp add: sample_defs Let_def)

section \<open>Which style values are transitions\<close>

text \<open>
  C2, as stated: whenever the time bounds of the event or the zoom level change, top,
  left, height, width and the corner radii of the resulting style are transitions of
  duration \<open>eventAnimatedDuration\<close>. It fails: while a pinch is active the four geometry
  values are plain numbers and the style has no corner radius, and without a pinch the
  corner radii are plain numbers.
\<close>

theorem pinch_style_is_immediate:
  "isPinchActive pinch_world
   \<and> \<not> is_transition (eventAnimatedDuration sample_props) (top_st (eventStyle sample_props pinch_world))
   \<and> \<not> is_transition (eventAnimatedDuration sample_props) (height_st (eventStyle sample_props pinch_world))
   \<and> \<not> is_transition (eventAnimatedDuration sample_props) (left_st (eventStyle sample_props pinch_world))
   \<and> \<not> is_transition (eventAnimatedDuration sample_props) (width_st (eventStyle sample_props pinch_world))
   \<and> borderTopLeftRadius (eventStyle sample_props pinch_world) = None
   \<and> \<not> isPinchActive sample_world
   \<and> borderTopLeftRadius (eventStyle sample_props sample_world) = Some (Plain 0)
   \<and> borderBottomLeftRadius (eventStyle sample_props sample_world) = Some (Plain 4)"
  by (simp add: sample_defs eventStyle_def Let_def)

text \<open>
  C2, amended. When pinch is not active, top, height, left and width are
  \<open>withTiming\<close> transitions of duration \<open>eventAnimatedDuration\<close> and the four corner radii
  are plain values, 0 or 4, applied at once; when pinch is active, top, height, left and
  width are plain values applied at once and the style sets no corner radius.
\<close>

theorem eventStyle_animation:
  "(\<not> isPinchActive w \<longrightarrow>
      is_transition (eventAnimatedDuration p) (top_st (eventStyle p w))
    \<and> is_transition (eventAnimatedDuration p) (height_st (eventStyle p w))
    \<and> is_transition (eventAnimatedDuration p) (left_st (eventStyle p w))
    \<and> is_transition (eventAnimatedDuration p) (width_st (eventStyle p w))
    \<and> borderTopLeftRadius (eventStyle p w) \<in> {Some (Plain 0), Some (Plain 4)}
    \<and> borderTopRightRadius (eventStyle p w) \<in> {Some (Plain 0), Some (Plain 4)}
    \<and> borderBottomLeftRadius (eventStyle p w) \<in> {Some (Plain 0), Some (Plain 4)}
    \<and> borderBottomRightRadius (eventStyle p w) \<in> {Some (Plain 0), Some (Plain 4)})
   \<and> (isPinchActive w \<longrightarrow>
      top_st (eventStyle p w) = Plain (target (top_st (eventStyle p w)))
    \<and> height_st (eventStyle p w) = Plain (target (height_st (eventStyle p w)))
    \<and> left_st (eventStyle p w) = Plain (target (left_st (eventStyle p w)))
    \<and> width_st (eventStyle p w) = Plain (target (width_st (eventStyle p w)))
    \<and> borderTopLeftRadius (eventStyle p w) = None
    \<and> borderTopRightRadius (eventStyle p w) = None
    \<and> borderBottomLeftRadius (eventStyle p w) = None
    \<and> borderBottomRightRadius (eventStyle p w) = None)"
  by (simp add: eventStyle_def Let_def)

theorem eventStyle_animation_witness:
  "\<not> isPinchActive sample_world
   \<and> is_transition (Some 250) (top_st (eventStyle sample_props sample_world))
   \<and> is_transition (Some 250) (height_st (eventStyle sample_props sample_world))
   \<and> is_transition (Some 250) (left_st (eventStyle sample_props sample_world))
   \<and> is_transition (Some 250) (width_st (eventStyle sample_props sample_world))
   \<and> isPinchActive pinch_world
   \<and> top_st (eventStyle sample_props pinch_world) = Plain 1
   \<and> height_st (eventStyle sample_props pinch_world) = Plain 178"
  using eventStyle_animation [of sample_world sample_props]
    eventStyle_animation [of pinch_world sample_props]
  by (simp add: sample_defs eventStyle_def Let_def)

section \<open>Optional callbacks\<close>

text \<open>
  C5. An undefined \<open>onPressEvent\<close> (\<open>onLongPressEvent\<close>) is handled: the press (long
  press) returns without an error and runs no code of the caller, whose state is as
  before. A defined callback is called exactly once: the handler's result is the
  callback's, applied to the new object in the world that the handler without a callback
  leaves, and a callback that counts its calls counts one more.
\<close>

theorem optional_callbacks:
  fixes p :: "('u, 'c) eventBlockProps" and w :: "'u world"
    and q :: "(nat, 'd) eventBlockProps" and v :: "nat world"
  shows "(onPressEvent p = None \<longrightarrow>
            (\<exists>w'. private_onPress p w = Inr w' \<and> user w' = user w))
       \<and> (onLongPressEvent p = None \<longrightarrow>
            (\<exists>w'. private_onLongPress p w = Inr w' \<and> user w' = user w))
       \<and> (\<forall>f. onPressEvent p = Some f \<longrightarrow>
            (\<exists>w'. private_onPress (p\<lparr>onPressEvent := None\<rparr>) w = Inr w'
                  \<and> private_onPress p w = f (fresh w) w'))
       \<and> (\<forall>g. onLongPressEvent p = Some g \<longrightarrow>
            (\<exists>w'. private_onLongPress (p\<lparr>onLongPressEvent := None\<rparr>) w = Inr w'
                  \<and> private_onLongPress p w = g (fresh w) w'))
       \<and> (onPressEvent q = Some count_call \<longrightarrow>
            (\<exists>v'. private_onPress q v = Inr v' \<and> user v' = Suc (user v)))
       \<and> (onLongPressEvent q = Some count_call \<longrightarrow>
            (\<exists>v'. private_onLongPress q v = Inr v' \<and> user v' = Suc (user v)))"
  by (simp add: private_onPress_def private_onLongPress_def new_object_def count_call_def Let_def)

theorem optional_callbacks_witness:
  "onPressEvent sample_props = None
   \<and> onLongPressEvent sample_props = None
   \<and> (\<exists>w'. private_onPress sample_props sample_world = Inr w' \<and> user w' = 0)
   \<and> (\<exists>w'. private_onLongPress sample_props sample_world = Inr w' \<and> user w' = 0)
   \<and> onPressEvent pressable_props = Some count_call
   \<and> (\<exists>w'. private_onPress pressable_props sample_world = Inr w' \<and> user w' = 1)"
  using optional_callbacks [of sample_props sample_world pressable_props sample_world]
  by (simp add: sample_defs)

section \<open>The minimum height of the theme\<close>

text \<open>
  C8. If \<open>theme.minimumEventHeight\<close> is truthy (set and not zero), the rendered height is
  at least \<open>theme.minimumEventHeight\<close>; if it is undefined or zero there is no lower bound:
  the rendered height is the in-day duration times \<open>heightByTimeInterval.value\<close> minus 2,
  which is zero or negative exactly when that product is at most 2, as for a short event.
\<close>

theorem eventStyle_minimum_height:
  "let ev = objects w (event p);
       inDay = duration ev - max (- startHour ev) 0 - max (startHour ev + duration ev - 24) 0;
       unclamped = inDay * heightByTimeInterval w - 2
   in (\<forall>m. minimumEventHeight (theme p) = Some m \<and> m \<noteq> 0 \<longrightarrow>
         m \<le> target (height_st (eventStyle p w))
         \<and> target (height_st (eventStyle p w)) = max m unclamped)
    \<and> (minimumEventHeight (theme p) = None \<or> minimumEventHeight (theme p) = Some 0 \<longrightarrow>
         target (height_st (eventStyle p w)) = unclamped
         \<and> (target (height_st (eventStyle p w)) \<le> 0 \<longleftrightarrow> inDay * heightByTimeInterval w \<le> 2))"
  by (auto simp add: eventStyle_def Let_def)

theorem eventStyle_minimum_height_witness:
  "minimumEventHeight (theme minimum_props) = Some 20
   \<and> target (height_st (eventStyle minimum_props short_world)) = 20
   \<and> minimumEventHeight (theme sample_props) = None
   \<and> target (height_st (eventStyle sample_props short_world)) = - 1"
  using eventStyle_minimum_height [of short_world minimum_props]
    eventStyle_minimum_height [of short_world sample_props]
  by (simp add: sample_defs Let_def)

section \<open>What the press handlers pass to the callbacks\<close>

text \<open>
  C1. For every event, a press and a long press call their callback, each on its own
  whether or not the other callback is given, with a new object that has the event's
  properties and, over them, \<open>top = event.startHour * heightByTimeInterval.value\<close>,
  \<open>height = event.duration * heightByTimeInterval.value\<close> and
  \<open>leftByIndex = columnWidth * dayIndex\<close>; every other property is the event's, and
  \<open>_onPress\<close> and \<open>_onLongPress\<close> build the same object.
\<close>

theorem handlers_build_event_params:
  "let ev = objects w (event p);
       a = fresh w;
       eventParams = ev\<lparr>top_ev := Some (startHour ev * heightByTimeInterval w),
                        height_ev := Some (duration ev * heightByTimeInterval w),
                        leftByIndex := Some (columnWidth p * dayIndex p)\<rparr>;
       w' = w\<lparr>objects := (objects w)(a := eventParams), fresh := Suc a\<rparr>
   in (\<forall>f. onPressEvent p = Some f \<longrightarrow> private_onPress p w = f a w')
    \<and> (\<forall>g. onLongPressEvent p = Some g \<longrightarrow> private_onLongPress p w = g a w')
    \<and> (onPressEvent p = None \<longrightarrow> private_onPress p w = Inr w')
    \<and> (onLongPressEvent p = None \<longrightarrow> private_onLongPress p w = Inr w')
    \<and> objects w' a = eventParams
    \<and> top_ev eventParams = Some (startHour ev * heightByTimeInterval w)
    \<and> height_ev eventParams = Some (duration ev * heightByTimeInterval w)
    \<and> leftByIndex eventParams = Some (columnWidth p * dayIndex p)
    \<and> startHour eventParams = startHour ev
    \<and> duration eventParams = duration ev
    \<and> left eventParams = left ev
    \<and> width eventParams = width ev
    \<and> title eventParams = title ev
    \<and> color eventParams = color ev
    \<and> containerStyle eventParams = containerStyle ev
    \<and> extra eventParams = extra ev"
  by (simp add: private_onPress_def private_onLongPress_def new_object_def Let_def)

theorem handlers_build_event_params_witness:
  "onPressEvent press_only_props = Some count_call
   \<and> onLongPressEvent press_only_props = None
   \<and> private_onPress press_only_props sample_world =
       count_call 1 (sample_world\<lparr>objects := (objects sample_world)
         (1 := sample_event\<lparr>top_ev := Some (- 120), height_ev := Some 300,
                             leftByIndex := Some 300\<rparr>), fresh := 2\<rparr>)
   \<and> onLongPressEvent long_only_props = Some retitle
   \<and> onPressEvent long_only_props = None
   \<and> private_onLongPress long_only_props sample_world =
       retitle 1 (sample_world\<lparr>objects := (objects sample_world)
         (1 := sample_event\<lparr>top_ev := Some (- 120), height_ev := Some 300,
                             leftByIndex := Some 300\<rparr>), fresh := 2\<rparr>)"
  using handlers_build_event_params [of sample_world press_only_props]
    handlers_build_event_params [of sample_world long_only_props]
  by (simp add: sample_defs Let_def numeral_2_eq_2)

section \<open>The component only reads its inputs\<close>

text \<open>
  C6, as stated: the component never writes its inputs, and after \<open>_onPress\<close> or
  \<open>_onLongPress\<close> has run the original event is unchanged because the callback's
  parameter is a newly built object. It fails for what the event refers to: the spread is
  shallow, the parameter holds the event's own reference to \<open>containerStyle\<close>, and a
  callback that writes through its parameter only
  (\<open>eventItem.containerStyle.opacity = 0\<close>) changes the style object of the event.
\<close>

theorem restyle_reaches_the_event:
  "event restyle_props < fresh styled_world
   \<and> onPressEvent restyle_props = Some restyle
   \<and> containerStyle (objects styled_world (event restyle_props)) = Some 7
   \<and> nested styled_world 7 ''opacity'' = Some (JNum 1)
   \<and> private_onPress restyle_props styled_world = Inr restyled_world
   \<and> containerStyle (objects restyled_world (event restyle_props)) = Some 7
   \<and> nested restyled_world 7 ''opacity'' = Some (JNum 0)"
  by (simp add: sample_defs restyled_world_def private_onPress_def new_object_def restyle_def
        Let_def numeral_2_eq_2)

text \<open>
  What an allocation leaves as it was, what the element of the block is made of, and the
  world that rendering returns.
\<close>

lemma new_object_inputs_unchanged:
  "inputs_unchanged w (snd (new_object obj w))"
  by (simp add: inputs_unchanged_def new_object_def)

lemma EventBlock_element:
  assumes "EventBlock p w = Inr (el, w')"
  shows "opacity el = (if (\<exists>s. selectedEventId p = Some s \<and> s \<noteq> []) then 0.5 else 1)"
    and "disabled el = (\<exists>s. selectedEventId p = Some s \<and> s \<noteq> [])"
    and "viewContainerStyle el = containerStyle (objects w (event p))"
    and "animatedStyle el = eventStyle p w"
    and "onPress el = private_onPress p"
    and "onLongPress el = private_onLongPress p"
  using assms
  by (auto simp add: EventBlock_def Let_def split: option.splits sum.splits prod.splits)

lemma EventBlock_world:
  "renderEventContent p = None \<Longrightarrow> \<exists>el. EventBlock p w = Inr (el, w)"
  "renderEventContent p = Some r \<Longrightarrow> r (event p) w = Inr (c, w') \<Longrightarrow>
     \<exists>el. EventBlock p w = Inr (el, w')"
  "renderEventContent p = Some r \<Longrightarrow> r (event p) w = Inl e \<Longrightarrow> EventBlock p w = Inl e"
  by (simp_all add: EventBlock_def Let_def)


text \<open>
  C6, amended. The component's own code writes none of its inputs. Rendering returns the
  world as it was when \<open>renderEventContent\<close> is absent, and the world that
  \<open>renderEventContent\<close> returns otherwise. A press handler writes one object, the new
  parameter object, at an address that is not the event's: every live object, every
  nested object and the three shared values are as before when the callback is called or
  skipped. The parameter is a shallow copy, with the event's references to
  \<open>containerStyle\<close> and to the other nested objects: after a callback that writes own
  properties of its parameter only, the event, the nested objects and the shared values
  are unchanged.
\<close>

theorem handlers_write_only_the_new_object:
  assumes live: "event p < fresh w"
  shows "(onPressEvent p = None \<longrightarrow>
            (\<exists>w'. private_onPress p w = Inr w' \<and> inputs_unchanged w w'
                  \<and> objects w' (event p) = objects w (event p)))
       \<and> (onLongPressEvent p = None \<longrightarrow>
            (\<exists>w'. private_onLongPress p w = Inr w' \<and> inputs_unchanged w w'
                  \<and> objects w' (event p) = objects w (event p)))
       \<and> (\<forall>f. onPressEvent p = Some f \<longrightarrow>
            (\<exists>w1. private_onPress p w = f (fresh w) w1 \<and> fresh w \<noteq> event p
                  \<and> inputs_unchanged w w1 \<and> objects w1 (event p) = objects w (event p)
                  \<and> containerStyle (objects w1 (fresh w)) = containerStyle (objects w (event p))
                  \<and> extra (objects w1 (fresh w)) = extra (objects w (event p))))
       \<and> (\<forall>g. onLongPressEvent p = Some g \<longrightarrow>
            (\<exists>w1. private_onLongPress p w = g (fresh w) w1 \<and> fresh w \<noteq> event p
                  \<and> inputs_unchanged w w1 \<and> objects w1 (event p) = objects w (event p)
                  \<and> containerStyle (objects w1 (fresh w)) = containerStyle (objects w (event p))
                  \<and> extra (objects w1 (fresh w)) = extra (objects w (event p))))
       \<and> (\<forall>f w'. onPressEvent p = Some f \<and> writes_own_properties f
                  \<and> private_onPress p w = Inr w' \<longrightarrow>
            inputs_unchanged w w' \<and> objects w' (event p) = objects w (event p))
       \<and> (\<forall>g w'. onLongPressEvent p = Some g \<and> writes_own_properties g
                  \<and> private_onLongPress p w = Inr w' \<longrightarrow>
            inputs_unchanged w w' \<and> objects w' (event p) = objects w (event p))
       \<and> (renderEventContent p = None \<longrightarrow> (\<exists>el. EventBlock p w = Inr (el, w)))
       \<and> (\<forall>r c w'. renderEventContent p = Some r \<and> r (event p) w = Inr (c, w') \<longrightarrow>
            (\<exists>el. EventBlock p w = Inr (el, w')))"
proof -
  let ?ev = "objects w (event p)"
  let ?params = "?ev\<lparr>top_ev := Some (startHour ?ev * heightByTimeInterval w),
                      height_ev := Some (duration ?ev * heightByTimeInterval w),
                      leftByIndex := Some (columnWidth p * dayIndex p)\<rparr>"
  let ?w1 = "snd (new_object ?params w)"
  have ne: "fresh w \<noteq> event p" using live by simp
  have unch: "inputs_unchanged w ?w1" by (rule new_object_inputs_unchanged)
  have same: "objects ?w1 (event p) = ?ev" using ne by (simp add: new_object_def)
  have refs: "containerStyle (objects ?w1 (fresh w)) = containerStyle ?ev"
    "extra (objects ?w1 (fresh w)) = extra ?ev"
    by (simp_all add: new_object_def)
  have kept: "nested ?w1 = nested w" "timeIntervalHeight ?w1 = timeIntervalHeight w"
    "heightByTimeInterval ?w1 = heightByTimeInterval w" "isPinchActive ?w1 = isPinchActive w"
    by (simp_all add: new_object_def)
  have press_none: "onPressEvent p = None \<Longrightarrow> private_onPress p w = Inr ?w1"
    by (simp add: private_onPress_def new_object_def Let_def)
  have long_none: "onLongPressEvent p = None \<Longrightarrow> private_onLongPress p w = Inr ?w1"
    by (simp add: private_onLongPress_def new_object_def Let_def)
  have press_some: "onPressEvent p = Some f \<Longrightarrow> private_onPress p w = f (fresh w) ?w1" for f
    by (simp add: private_onPress_def new_object_def Let_def)
  have long_some: "onLongPressEvent p = Some g \<Longrightarrow> private_onLongPress p w = g (fresh w) ?w1" for g
    by (simp add: private_onLongPress_def new_object_def Let_def)
  have frame: "inputs_unchanged w w' \<and> objects w' (event p) = ?ev"
    if wf: "writes_own_properties f" and res: "f (fresh w) ?w1 = Inr w'" for f w'
  proof -
    from wf res have keep: "\<forall>b. b \<noteq> fresh w \<longrightarrow> objects w' b = objects ?w1 b"
      and sh: "nested w' = nested ?w1" "timeIntervalHeight w' = timeIntervalHeight ?w1"
        "heightByTimeInterval w' = heightByTimeInterval ?w1"
        "isPinchActive w' = isPinchActive ?w1"
      unfolding writes_own_properties_def by blast+
    have "objects w' a = objects w a" if "a < fresh w" for a
    proof -
      from that have "a \<noteq> fresh w" by simp
      with keep have "objects w' a = objects ?w1 a" by simp
      also have "\<dots> = objects w a" using that by (simp add: new_object_def)
      finally show ?thesis .
    qed
    then show ?thesis using sh kept live by (simp add: inputs_unchanged_def)
  qed
  show ?thesis
  proof (intro conjI impI allI)
    assume h: "onPressEvent p = None"
    show "\<exists>w'. private_onPress p w = Inr w' \<and> inputs_unchanged w w'
            \<and> objects w' (event p) = objects w (event p)"
      using press_none [OF h] unch same by blast
  next
    assume h: "onLongPressEvent p = None"
    show "\<exists>w'. private_onLongPress p w = Inr w' \<and> inputs_unchanged w w'
            \<and> objects w' (event p) = objects w (event p)"
      using long_none [OF h] unch same by blast
  next
    fix f assume h: "onPressEvent p = Some f"
    show "\<exists>w1. private_onPress p w = f (fresh w) w1 \<and> fresh w \<noteq> event p
            \<and> inputs_unchanged w w1 \<and> objects w1 (event p) = objects w (event p)
            \<and> containerStyle (objects w1 (fresh w)) = containerStyle (objects w (event p))
            \<and> extra (objects w1 (fresh w)) = extra (objects w (event p))"
      using press_some [OF h] ne unch same refs by blast
  next
    fix g assume h: "onLongPressEvent p = Some g"
    show "\<exists>w1. private_onLongPress p w = g (fresh w) w1 \<and> fresh w \<noteq> event p
            \<and> inputs_unchanged w w1 \<and> objects w1 (event p) = objects w (event p)
            \<and> containerStyle (objects w1 (fresh w)) = containerStyle (objects w (event p))
            \<and> extra (objects w1 (fresh w)) = extra (objects w (event p))"
      using long_some [OF h] ne unch same refs by blast
  next
    fix f w'
    assume h: "onPressEvent p = Some f \<and> writes_own_properties f
                 \<and> private_onPress p w = Inr w'"
    then have "f (fresh w) ?w1 = Inr w'" using press_some [of f] by simp
    with h frame [of f w'] show "inputs_unchanged w w'"
      and "objects w' (event p) = objects w (event p)" by blast+
  next
    fix g w'
    assume h: "onLongPressEvent p = Some g \<and> writes_own_properties g
                 \<and> private_onLongPress p w = Inr w'"
    then have "g (fresh w) ?w1 = Inr w'" using long_some [of g] by simp
    with h frame [of g w'] show "inputs_unchanged w w'"
      and "objects w' (event p) = objects w (event p)" by blast+
  next
    assume "renderEventContent p = None"
    then show "\<exists>el. EventBlock p w = Inr (el, w)" by (rule EventBlock_world(1))
  next
    fix r c w'
    assume "renderEventContent p = Some r \<and> r (event p) w = Inr (c, w')"
    then have "renderEventContent p = Some r" and "r (event p) w = Inr (c, w')" by simp_all
    then show "\<exists>el. EventBlock p w = Inr (el, w')" by (rule EventBlock_world(2))
  qed
qed

theorem handlers_write_only_the_new_object_witness:
  "event pressable_props < fresh styled_world
   \<and> onLongPressEvent pressable_props = Some retitle
   \<and> writes_own_properties retitle
   \<and> (\<exists>w'. private_onLongPress pressable_props styled_world = Inr w'
          \<and> title (objects w' 1) = Some ''seen''
          \<and> objects w' 0 = objects styled_world 0
          \<and> inputs_unchanged styled_world w')
   \<and> renderEventContent pressable_props = None
   \<and> (\<exists>el. EventBlock pressable_props styled_world = Inr (el, styled_world))"
proof -
  have live: "event pressable_props < fresh styled_world"
    by (simp add: sample_defs)
  have cb: "onLongPressEvent pressable_props = Some retitle"
    by (simp add: sample_defs)
  have rc: "renderEventContent pressable_props = None"
    by (simp add: sample_defs)
  have wf: "writes_own_properties retitle"
    by (simp add: writes_own_properties_def retitle_def)
  obtain w' where r: "private_onLongPress pressable_props styled_world = Inr w'"
    and t: "title (objects w' 1) = Some ''seen''"
    by (simp add: private_onLongPress_def new_object_def retitle_def sample_defs Let_def)
  note main = handlers_write_only_the_new_object [OF live]
  from main cb wf r
  have "inputs_unchanged styled_world w'
        \<and> objects w' (event pressable_props) = objects styled_world (event pressable_props)"
    by blast
  then have u: "inputs_unchanged styled_world w'" and e: "objects w' 0 = objects styled_world 0"
    by (simp_all add: sample_props_def pressable_props_def)
  from main rc have "\<exists>el. EventBlock pressable_props styled_world = Inr (el, styled_world)"
    by blast
  with live cb wf r t u e rc show ?thesis by blast
qed

section \<open>A selected event\<close>

text \<open>
  C9, as stated: for every props with a truthy \<open>selectedEventId\<close> the block is rendered at
  opacity 0.5. It fails for an event whose \<open>containerStyle\<close> sets an opacity: that entry
  follows the opacity entry in the style list of the view, and the block is rendered at the
  opacity of \<open>containerStyle\<close>.
\<close>

theorem selected_block_opacity_overridden:
  "selectedEventId selected_props = Some ''other''
   \<and> containerStyle (objects styled_world (event selected_props)) = Some 7
   \<and> nested styled_world 7 ''opacity'' = Some (JNum 1)
   \<and> EventBlock selected_props styled_world = Inr (selected_element, styled_world)
   \<and> rendered_opacity selected_element styled_world = JNum 1
   \<and> rendered_opacity selected_element styled_world \<noteq> JNum 0.5"
  by (simp add: sample_defs selected_element_def EventBlock_def private_renderEventContent_def
        rendered_opacity_def EVENT_DEFAULT_COLOR_def Let_def)

text \<open>
  C9, amended. Whenever \<open>selectedEventId\<close> is truthy (any non-empty string, the event's
  own id or not), the opacity entry of the block is 0.5 and its touchable is disabled, so
  a press or a long press runs neither handler and leaves the world as it is; the block is
  rendered at opacity 0.5 when \<open>event.containerStyle\<close> is absent or sets no opacity, and
  at the opacity of \<open>containerStyle\<close> when it sets one. When \<open>selectedEventId\<close> is absent
  or empty, the opacity entry is 1, with the same precedence of \<open>containerStyle\<close>, the
  touchable is enabled and a touch runs its handler. Without \<open>renderEventContent\<close> the
  block always renders.
\<close>

theorem selected_block_style_and_touch:
  "(\<forall>el w'. EventBlock p w = Inr (el, w') \<longrightarrow>
      (\<forall>s. selectedEventId p = Some s \<and> s \<noteq> [] \<longrightarrow>
         opacity el = 0.5 \<and> disabled el
         \<and> (\<forall>v. press el v = Inr v \<and> longPress el v = Inr v)
         \<and> (\<forall>v. containerStyle (objects w (event p)) = None \<longrightarrow>
               rendered_opacity el v = JNum 0.5)
         \<and> (\<forall>v r. containerStyle (objects w (event p)) = Some r
                 \<and> nested v r ''opacity'' = None \<longrightarrow>
               rendered_opacity el v = JNum 0.5)
         \<and> (\<forall>v r x. containerStyle (objects w (event p)) = Some r
                 \<and> nested v r ''opacity'' = Some x \<longrightarrow>
               rendered_opacity el v = x))
    \<and> (selectedEventId p = None \<or> selectedEventId p = Some [] \<longrightarrow>
         opacity el = 1 \<and> \<not> disabled el
         \<and> (\<forall>v. press el v = private_onPress p v \<and> longPress el v = private_onLongPress p v)
         \<and> (\<forall>v. containerStyle (objects w (event p)) = None \<longrightarrow>
               rendered_opacity el v = JNum 1)
         \<and> (\<forall>v r. containerStyle (objects w (event p)) = Some r
                 \<and> nested v r ''opacity'' = None \<longrightarrow>
               rendered_opacity el v = JNum 1)
         \<and> (\<forall>v r x. containerStyle (objects w (event p)) = Some r
                 \<and> nested v r ''opacity'' = Some x \<longrightarrow>
               rendered_opacity el v = x)))
   \<and> (renderEventContent p = None \<longrightarrow> (\<exists>el. EventBlock p w = Inr (el, w)))"
proof (intro conjI allI impI)
  fix el w'
  assume r: "EventBlock p w = Inr (el, w')"
  note el = EventBlock_element [OF r]
  {
    fix s assume sel: "selectedEventId p = Some s \<and> s \<noteq> []"
    then have yes: "\<exists>s. selectedEventId p = Some s \<and> s \<noteq> []" by blast
    show "opacity el = 0.5" and "disabled el" using el(1,2) yes by simp_all
    then have o: "opacity el = 0.5" and d: "disabled el" .
    show "press el v = Inr v" and "longPress el v = Inr v" for v
      using d by (simp_all add: press_def longPress_def)
    show "rendered_opacity el v = JNum 0.5"
      if "containerStyle (objects w (event p)) = None" for v
      using that el(3) o by (simp add: rendered_opacity_def)
    show "rendered_opacity el v = JNum 0.5"
      if "containerStyle (objects w (event p)) = Some r \<and> nested v r ''opacity'' = None" for v r
      using that el(3) o by (simp add: rendered_opacity_def)
    show "rendered_opacity el v = x"
      if "containerStyle (objects w (event p)) = Some r \<and> nested v r ''opacity'' = Some x" for v r x
      using that el(3) by (simp add: rendered_opacity_def)
  }
  {
    assume unsel: "selectedEventId p = None \<or> selectedEventId p = Some []"
    then have no: "\<not> (\<exists>s. selectedEventId p = Some s \<and> s \<noteq> [])" by auto
    show "opacity el = 1" and "\<not> disabled el" using el(1,2) no by simp_all
    then have o: "opacity el = 1" and d: "\<not> disabled el" .
    show "press el v = private_onPress p v" and "longPress el v = private_onLongPress p v" for v
      using d el(5,6) by (simp_all add: press_def longPress_def)
    show "rendered_opacity el v = JNum 1"
      if "containerStyle (objects w (event p)) = None" for v
      using that el(3) o by (simp add: rendered_opacity_def)
    show "rendered_opacity el v = JNum 1"
      if "containerStyle (objects w (event p)) = Some r \<and> nested v r ''opacity'' = None" for v r
      using that el(3) o by (simp add: rendered_opacity_def)
    show "rendered_opacity el v = x"
      if "containerStyle (objects w (event p)) = Some r \<and> nested v r ''opacity'' = Some x" for v r x
      using that el(3) by (simp add: rendered_opacity_def)
  }
next
  assume "renderEventContent p = None"
  then show "\<exists>el. EventBlock p w = Inr (el, w)" by (rule EventBlock_world(1))
qed


theorem selected_block_style_and_touch_witness:
  "selectedEventId selected_props = Some ''other''
   \<and> onPressEvent selected_props = Some count_call
   \<and> EventBlock selected_props styled_world = Inr (selected_element, styled_world)
   \<and> opacity selected_element = 0.5
   \<and> disabled selected_element
   \<and> press selected_element styled_world = Inr styled_world
   \<and> longPress selected_element styled_world = Inr styled_world
   \<and> rendered_opacity selected_element styled_world = JNum 1
   \<and> rendered_opacity selected_element sample_world = JNum 0.5
   \<and> selectedEventId pressable_props = None
   \<and> (\<exists>el. EventBlock pressable_props sample_world = Inr (el, sample_world)
          \<and> opacity el = 1 \<and> \<not> disabled el
          \<and> press el sample_world = private_onPress pressable_props sample_world)"
proof -
  have r: "EventBlock selected_props styled_world = Inr (selected_element, styled_world)"
    by (simp add: sample_defs selected_element_def EventBlock_def
          private_renderEventContent_def EVENT_DEFAULT_COLOR_def Let_def)
  have s: "selectedEventId selected_props = Some ''other'' \<and> ''other'' \<noteq> []"
    and cb: "onPressEvent selected_props = Some count_call"
    and u: "selectedEventId pressable_props = None"
    and rc: "renderEventContent pressable_props = None"
    by (simp_all add: sample_defs)
  have set: "containerStyle (objects styled_world (event selected_props)) = Some 7
             \<and> nested styled_world 7 ''opacity'' = Some (JNum 1)"
    and unset: "containerStyle (objects styled_world (event selected_props)) = Some 7
             \<and> nested sample_world 7 ''opacity'' = None"
    by (simp_all add: sample_defs)
  note sel = selected_block_style_and_touch [of selected_props styled_world]
  from sel r s have a: "opacity selected_element = 0.5" "disabled selected_element"
    "press selected_element styled_world = Inr styled_world"
    "longPress selected_element styled_world = Inr styled_world"
    by blast+
  from sel r s set have b: "rendered_opacity selected_element styled_world = JNum 1"
    by blast
  from sel r s unset have c: "rendered_opacity selected_element sample_world = JNum 0.5"
    by blast
  note uns = selected_block_style_and_touch [of pressable_props sample_world]
  from uns rc obtain el where e: "EventBlock pressable_props sample_world = Inr (el, sample_world)"
    by blast
  from uns e u have d: "opacity el = 1" "\<not> disabled el"
    "press el sample_world = private_onPress pressable_props sample_world"
    by blast+
  from s cb r a b c u e d show ?thesis by blast
qed

end
